theory Spec2Isabelle
  imports Complex_Main "HOL-Library.Multiset" "HOL-Library.Sublist"
begin

section \<open>RateLimiter (service/compliance\_service.go)\<close>

text \<open>
  Instants and durations are counted in nanoseconds, as Go's \<open>time.Duration\<close> does.
  \<open>requestCount\<close> is the Go map from key to count; a key that is absent reads as 0.
  The counts and the limit are Go \<open>int\<close>s; they are unbounded integers here (a count
  would have to pass \<open>2 ^ 63\<close> calls inside one window to wrap). The clock is handed
  in as \<open>now\<close>: one instant for the comparison with the window and for the new
  \<open>lastReset\<close>, which the source reads with two calls of the clock in a row.
\<close>

type_synonym time = int

record RateLimiter =
  requestCount :: "string \<rightharpoonup> int"
  limit :: int
  window :: int
  lastReset :: time

definition NewRateLimiter :: "int \<Rightarrow> int \<Rightarrow> time \<Rightarrow> RateLimiter" where
  "NewRateLimiter n w now =
     \<lparr>requestCount = Map.empty, limit = n, window = w, lastReset = now\<rparr>"

text \<open>Reading a Go \<open>map[string]int\<close>: the zero value for a missing key.\<close>

definition count_of :: "(string \<rightharpoonup> int) \<Rightarrow> string \<Rightarrow> int" where
  "count_of m key = (case m key of None \<Rightarrow> 0 | Some c \<Rightarrow> c)"

definition Allow :: "time \<Rightarrow> string \<Rightarrow> RateLimiter \<Rightarrow> bool \<times> RateLimiter" where
  "Allow now key rl =
     (let rl1 = (if now - lastReset rl > window rl
                 then rl\<lparr>requestCount := Map.empty, lastReset := now\<rparr>
                 else rl);
          c = count_of (requestCount rl1) key + 1;
          rl2 = rl1\<lparr>requestCount := (requestCount rl1)(key \<mapsto> c)\<rparr>
      in (c \<le> limit rl2, rl2))"

text \<open>
  The two global limiters of the service as they are built when the process starts at the
  instant \<open>start\<close> (one minute window).
\<close>

definition minute :: int where
  "minute = 60 * 1000000000"

definition groqRateLimiter_init :: "time \<Rightarrow> RateLimiter" where
  "groqRateLimiter_init start = NewRateLimiter 50 minute start"

definition ruleRateLimiter_init :: "time \<Rightarrow> RateLimiter" where
  "ruleRateLimiter_init start = NewRateLimiter 100 minute start"

text \<open>
  A sequence of calls of \<open>Allow\<close> on one limiter, each with the instant at which it is
  made and its key; the answers are collected in call order.
\<close>

fun Allow_calls :: "RateLimiter \<Rightarrow> (time \<times> string) list \<Rightarrow> bool list \<times> RateLimiter" where
  "Allow_calls rl [] = ([], rl)"
| "Allow_calls rl ((now, key) # cs) =
     (let (b, rl1) = Allow now key rl;
          (bs, rl2) = Allow_calls rl1 cs
      in (b # bs, rl2))"

text \<open>How many of the calls carry the key \<open>k\<close>.\<close>

definition calls_with :: "string \<Rightarrow> (time \<times> string) list \<Rightarrow> nat" where
  "calls_with k cs = length (filter (\<lambda>c. snd c = k) cs)"

section \<open>Decoded JSON and the stored entities (models)\<close>

text \<open>
  A value as \<open>encoding/json\<close> decodes it into \<open>interface{}\<close>. A JSON object is a Go map,
  so it is a partial function on keys. A \<open>map[string]interface{}\<close> of the source is a
  \<open>gomap\<close>, and the type assertion \<open>v.(string)\<close> on a map entry is \<open>as_string\<close>: it
  succeeds on a present string value only.
\<close>

datatype json = JNull | JBool bool | JNum real | JStr string | JArr "json list"
  | JObj "string \<Rightarrow> json option"

type_synonym gomap = "string \<rightharpoonup> json"

definition as_string :: "json option \<Rightarrow> string option" where
  "as_string v = (case v of Some (JStr s) \<Rightarrow> Some s | _ \<Rightarrow> None)"

record ComplianceRule =
  cr_ID :: string
  cr_Name :: string
  cr_Description :: string
  cr_Pattern :: string
  cr_Severity :: string
  cr_CreatedAt :: time

section \<open>CalculateRiskScore (service/compliance\_service.go)\<close>

definition severityWeights :: "string \<rightharpoonup> real" where
  "severityWeights = [''high'' \<mapsto> 3.0, ''medium'' \<mapsto> 2.0, ''low'' \<mapsto> 1.0]"

text \<open>The lookup map of the rules by name; a later rule replaces an earlier one of the same name.\<close>

definition build_ruleMap :: "ComplianceRule list \<Rightarrow> (string \<rightharpoonup> ComplianceRule)" where
  "build_ruleMap rules = fold (\<lambda>rule m. m(cr_Name rule \<mapsto> rule)) rules Map.empty"

text \<open>
  The loop over \<open>results\<close> with its index \<open>i\<close> and the running \<open>riskScore\<close>. The score is
  a \<open>float64\<close> in the source; every value it takes is a sum of the weights 1, 2 and 3,
  which \<open>float64\<close> adds exactly below \<open>2 ^ 53\<close>, so it is a real number here.
\<close>

fun score_loop ::
  "(string \<rightharpoonup> ComplianceRule) \<Rightarrow> ComplianceRule list \<Rightarrow> nat \<Rightarrow> gomap list \<Rightarrow> real \<Rightarrow> real" where
  "score_loop ruleMap rules i [] riskScore = riskScore"
| "score_loop ruleMap rules i (result # rest) riskScore =
     (case as_string (result ''status'') of
        None \<Rightarrow> score_loop ruleMap rules (i + 1) rest riskScore
      | Some status \<Rightarrow>
          (case (case as_string (result ''rule_name'') of
                   Some n \<Rightarrow> Some n
                 | None \<Rightarrow> if i < length rules then Some (cr_Name (rules ! i)) else None) of
             None \<Rightarrow> score_loop ruleMap rules (i + 1) rest riskScore
           | Some ruleName \<Rightarrow>
               if status = ''fail'' then
                 (case ruleMap ruleName of
                    Some rule \<Rightarrow>
                      (let weight = (case severityWeights (cr_Severity rule) of
                                       Some w \<Rightarrow> w
                                     | None \<Rightarrow> 1.0)
                       in score_loop ruleMap rules (i + 1) rest (riskScore + weight))
                  | None \<Rightarrow> score_loop ruleMap rules (i + 1) rest riskScore)
               else score_loop ruleMap rules (i + 1) rest riskScore))"

text \<open>
  \<open>CalculateRiskScore\<close> first asks the shared \<open>ruleRateLimiter\<close> (the state \<open>rl\<close>, returned
  updated) for the key \<open>risk_score_calculation\<close>.
\<close>

definition CalculateRiskScore ::
  "RateLimiter \<Rightarrow> time \<Rightarrow> gomap list \<Rightarrow> ComplianceRule list \<Rightarrow> real \<times> RateLimiter" where
  "CalculateRiskScore rl now results rules =
     (let (allowed, rl1) = Allow now ''risk_score_calculation'' rl
      in if \<not> allowed then (0.0, rl1)
         else (score_loop (build_ruleMap rules) rules 0 results 0.0, rl1))"

text \<open>
  What the specification says of the score: the outcomes that count are those with status
  \<open>fail\<close> whose \<open>rule_name\<close> is the name of a rule of the catalog; each adds the weight
  of the severity of that rule.
\<close>

definition severity_weight :: "string \<Rightarrow> real" where
  "severity_weight sev =
     (if sev = ''high'' then 3 else if sev = ''medium'' then 2 else if sev = ''low'' then 1 else 1)"

definition catalog_rule :: "ComplianceRule list \<Rightarrow> string \<Rightarrow> ComplianceRule option" where
  "catalog_rule rules n = find (\<lambda>r. cr_Name r = n) (rev rules)"

definition claimed_weight :: "ComplianceRule list \<Rightarrow> gomap \<Rightarrow> real" where
  "claimed_weight rules result =
     (if as_string (result ''status'') = Some ''fail'' then
        (case as_string (result ''rule_name'') of
           None \<Rightarrow> 0
         | Some n \<Rightarrow> (case catalog_rule rules n of
                        None \<Rightarrow> 0
                      | Some r \<Rightarrow> severity_weight (cr_Severity r)))
      else 0)"

definition claimed_score :: "ComplianceRule list \<Rightarrow> gomap list \<Rightarrow> real" where
  "claimed_score rules results = sum_list (map (claimed_weight rules) results)"

text \<open>
  The name under which the loop scores the outcome at position \<open>i\<close>: its own \<open>rule_name\<close>,
  or, when it has none, the name of the rule at the same position of the catalog.
\<close>

definition scored_name :: "ComplianceRule list \<Rightarrow> nat \<Rightarrow> gomap \<Rightarrow> string option" where
  "scored_name rules i result =
     (case as_string (result ''rule_name'') of
        Some n \<Rightarrow> Some n
      | None \<Rightarrow> if i < length rules then Some (cr_Name (rules ! i)) else None)"

definition positional_weight :: "ComplianceRule list \<Rightarrow> nat \<times> gomap \<Rightarrow> real" where
  "positional_weight rules p =
     (if as_string (snd p ''status'') = Some ''fail'' then
        (case scored_name rules (fst p) (snd p) of
           None \<Rightarrow> 0
         | Some n \<Rightarrow> (case catalog_rule rules n of
                        None \<Rightarrow> 0
                      | Some r \<Rightarrow> severity_weight (cr_Severity r)))
      else 0)"

definition positional_score :: "ComplianceRule list \<Rightarrow> gomap list \<Rightarrow> real" where
  "positional_score rules results =
     sum_list (map (positional_weight rules) (enumerate 0 results))"

section \<open>Example values\<close>

definition nda_rule :: ComplianceRule where
  "nda_rule = \<lparr>cr_ID = ''rule-1'', cr_Name = ''NDA Check'', cr_Description = ''NDA present'',
     cr_Pattern = ''non-disclosure'', cr_Severity = ''high'', cr_CreatedAt = 0\<rparr>"

definition outcome_fail_nda :: gomap where
  "outcome_fail_nda = [''rule_name'' \<mapsto> JStr ''NDA Check'', ''severity'' \<mapsto> JStr ''high'',
     ''status'' \<mapsto> JStr ''fail'', ''explanation'' \<mapsto> JStr ''violated'']"

definition outcome_pass_nda :: gomap where
  "outcome_pass_nda = [''rule_name'' \<mapsto> JStr ''NDA Check'', ''severity'' \<mapsto> JStr ''high'',
     ''status'' \<mapsto> JStr ''pass'', ''explanation'' \<mapsto> JStr ''complies'']"

definition outcome_fail_unnamed :: gomap where
  "outcome_fail_unnamed = [''status'' \<mapsto> JStr ''fail'']"

text \<open>
  The \<open>ruleRateLimiter\<close> of a service started at 0 after 100 risk score calculations, all
  made at the instant 1.
\<close>

definition exhausted_ruleRateLimiter :: RateLimiter where
  "exhausted_ruleRateLimiter =
     snd (Allow_calls (ruleRateLimiter_init 0) (replicate 100 (1, ''risk_score_calculation'')))"

section \<open>Strings (Go's \<open>strings\<close> and \<open>regexp\<close> as the service uses them)\<close>

text \<open>
  A Go string is its sequence of bytes. \<open>ToLower\<close> maps the ASCII capitals to small
  letters and leaves every other byte as it is; this is \<open>strings.ToLower\<close> on ASCII
  text (Go also lower-cases letters beyond ASCII, whose bytes the pattern of the fallback
  matcher then deletes unless their lower case is an ASCII letter).
\<close>

definition lower_byte :: "char \<Rightarrow> char" where
  "lower_byte c =
     (case map_of (zip ''ABCDEFGHIJKLMNOPQRSTUVWXYZ'' ''abcdefghijklmnopqrstuvwxyz'') c of
        Some l \<Rightarrow> l
      | None \<Rightarrow> c)"

definition ToLower :: "string \<Rightarrow> string" where
  "ToLower s = map lower_byte s"

text \<open>\<open>strings.ReplaceAll(s, old, new)\<close> for a one-byte \<open>old\<close> and \<open>new\<close>.\<close>

definition ReplaceAll :: "string \<Rightarrow> char \<Rightarrow> char \<Rightarrow> string" where
  "ReplaceAll s old new = map (\<lambda>c. if c = old then new else c) s"

text \<open>
  The bytes that the pattern \<open>[^a-z0-9\s]\<close> does not match: small letters, digits and
  the white space of RE2 (tab, line feed, form feed, carriage return, space).
  \<open>ReplaceAllString(s, "")\<close> with this pattern deletes every other byte.
\<close>

definition kept_byte :: "char \<Rightarrow> bool" where
  "kept_byte c \<longleftrightarrow>
     c \<in> set ''abcdefghijklmnopqrstuvwxyz0123456789'' \<or>
     c \<in> set [CHR 0x09, CHR 0x0A, CHR 0x0C, CHR 0x0D, CHR '' '']"

definition strip_other :: "string \<Rightarrow> string" where
  "strip_other s = filter kept_byte s"

text \<open>\<open>strings.Contains(s, substr)\<close>: \<open>substr\<close> begins at some position of \<open>s\<close>.\<close>

fun Contains :: "string \<Rightarrow> string \<Rightarrow> bool" where
  "Contains [] substr = (substr = [])"
| "Contains (c # s) substr = (prefix substr (c # s) \<or> Contains s substr)"

text \<open>The helper \<open>contains\<close> of the document service and \<open>sliceContains\<close>.\<close>

fun contains :: "string list \<Rightarrow> string \<Rightarrow> bool" where
  "contains [] item = False"
| "contains (s # slice) item = (if s = item then True else contains slice item)"


section \<open>fallbackRuleExtraction (service/compliance\_service.go)\<close>

text \<open>
  The built-in table. Go ranges over this map in an unspecified order; the model walks it
  in the order of the source text, and the properties below speak of membership only.
\<close>

definition ruleMatchers :: "(string \<times> string list) list" where
  "ruleMatchers =
     [(''Confidentiality Marking'',
         [''confidential'', ''private'', ''restricted'', ''secret'', ''sensitive'']),
      (''NDA Check'',
         [''nda'', ''non-disclosure'', ''confidential'', ''agreement'', ''secret'']),
      (''Signature Requirement'',
         [''sign'', ''signature'', ''date'', ''signed'', ''execute'', ''approval'']),
      (''Data Protection Clause'',
         [''data'', ''privacy'', ''protection'', ''personal'', ''information'', ''secure'']),
      (''Liability Clause Requirement'',
         [''liability'', ''responsibility'', ''limit'', ''clause'', ''legal'', ''risk'']),
      (''Payment Terms Specification'',
         [''payment'', ''due'', ''terms'', ''money'', ''cost'', ''invoice'', ''charge''])]"

text \<open>The normalisation at the head of \<open>fallbackRuleExtraction\<close>.\<close>

definition normalize_text :: "string \<Rightarrow> string" where
  "normalize_text ocrText =
     (let ocrLower = ToLower ocrText;
          ocrLower = ReplaceAll ocrLower (CHR ''-'') (CHR '' '');
          ocrLower = ReplaceAll ocrLower (CHR ''_'') (CHR '' '')
      in strip_other ocrLower)"

definition matchCount :: "string \<Rightarrow> string list \<Rightarrow> nat" where
  "matchCount ocrLower matchTerms =
     fold (\<lambda>matchTerm n. if Contains ocrLower matchTerm then n + 1 else n) matchTerms 0"

text \<open>The parameter \<open>ruleNames\<close> is not read by the source either.\<close>

definition fallbackRuleExtraction :: "string \<Rightarrow> string list \<Rightarrow> string list" where
  "fallbackRuleExtraction ocrText ruleNames =
     (if ocrText = [] then []
      else
        (let ocrLower = normalize_text ocrText
         in fold (\<lambda>(ruleName, matchTerms) violated.
                    if matchCount ocrLower matchTerms > 0 then violated @ [ruleName]
                    else violated)
              ruleMatchers []))"

section \<open>Stored entities, the store and the environment\<close>

text \<open>
  The bytes of a \<open>datatypes.JSON\<close> column, by what \<open>encoding/json\<close> makes of them: no
  bytes at all, bytes that are not JSON, or the encoding of a value.
\<close>

datatype rawjson = NoBytes | Malformed | Encoded json

record ActionItem =
  ai_ID :: string
  ai_DocumentID :: string
  ai_RuleID :: string
  ai_Description :: string
  ai_AssignedTo :: string
  ai_Status :: string
  ai_Priority :: string
  ai_DueDate :: time
  ai_CreatedAt :: time
  ai_UpdatedAt :: time

record DocumentRuleResult =
  drr_ID :: string
  drr_DocumentID :: string
  drr_RuleID :: string
  drr_Status :: string
  drr_Details :: rawjson
  drr_CreatedAt :: time

record Document =
  doc_ID :: string
  doc_Title :: string
  doc_FileType :: string
  doc_OriginalURL :: string
  doc_OcrText :: string
  doc_ParsedData :: rawjson
  doc_RiskScore :: real
  doc_CreatedAt :: time
  doc_UpdatedAt :: time

text \<open>
  The relational store behind \<open>s.db\<close>: one list of rows for each table, in the order in
  which a query goes through them, and the number of statements issued so far.
\<close>

record DB =
  compliance_rules :: "ComplianceRule list"
  action_items :: "ActionItem list"
  document_rule_results :: "DocumentRuleResult list"
  documents :: "Document list"
  statements :: nat

datatype error =
    RateLimitExceeded string
  | MissingAPIKey
  | NoDocuments
  | RequestError
  | Non200 nat
  | ReadError
  | JSONError
  | StoreError
  | RecordNotFound

text \<open>
  How a call ends: it returns a value, it returns an error, or the goroutine panics.
\<close>

datatype 'a result = Returned 'a | Failed error | Panicked

text \<open>
  What \<open>client.Do\<close> hands back. \<open>DoError None\<close> is a transport error: the error is set
  and the response is \<open>nil\<close>. \<open>DoError (Some r)\<close> is the one case in which \<open>net/http\<close>
  sets both (a redirect that the client's policy refuses). A response is its status code and its
  body; the body cannot be read, is not the JSON of a chat completion, or lists the
  \<open>choices\<close>, each with a \<open>content\<close> string that either does not parse into the expected
  JSON object or yields its payload.
\<close>

datatype 'a content = BadContent | Content 'a

datatype 'a body = Unreadable | NotJSON | Choices "'a content list"

type_synonym 'a response = "nat \<times> 'a body"

datatype 'a reply = DoError "'a response option" | DoOK "'a response"

record DocumentComplianceCheck =
  dcc_ID :: string
  dcc_OCRText :: string

record BatchComplianceRequest =
  bcr_Documents :: "DocumentComplianceCheck list"
  bcr_RuleNames :: "string list"


text \<open>
  Everything outside the service that its code consults: the environment variable with
  the credential, whether \<open>json.Marshal\<close> of a request or \<open>http.NewRequest\<close> reports an
  error, the reply of the remote service to each attempt of a request (single
  classification: the rule details and the text, then the attempt; batch: the request,
  the offset of the chunk, then the attempt), whether the n-th statement sent to the
  database fails, the identifier the database gives to the n-th created row, and
  \<open>time.Time.AddDate\<close>.
\<close>

record Env =
  VITE_GROQ_API_KEY :: string
  marshal_fails :: bool
  newRequest_fails :: bool
  client_Do :: "string list \<times> string \<Rightarrow> nat \<Rightarrow> string list reply"
  batch_Do :: "BatchComplianceRequest \<Rightarrow> int \<Rightarrow> nat \<Rightarrow> (string \<times> string list) list reply"
  db_fails :: "nat \<Rightarrow> bool"
  gen_random_uuid :: "nat \<Rightarrow> string"
  AddDate :: "time \<Rightarrow> int \<Rightarrow> int \<Rightarrow> int \<Rightarrow> time"

text \<open>The mutable state of the document service: its store and the two global limiters.\<close>

record Service =
  db :: DB
  groqRateLimiter :: RateLimiter
  ruleRateLimiter :: RateLimiter

text \<open>One statement sent to the database: whether it fails, and the store after it.\<close>

definition db_statement :: "Env \<Rightarrow> DB \<Rightarrow> bool \<times> DB" where
  "db_statement env d = (db_fails env (statements d), d\<lparr>statements := statements d + 1\<rparr>)"

section \<open>GetAllComplianceRules and DetermineApplicableRules (service/compliance\_service.go)\<close>

definition GetAllComplianceRules ::
  "Env \<Rightarrow> time \<Rightarrow> Service \<Rightarrow> (error + ComplianceRule list) \<times> Service" where
  "GetAllComplianceRules env now s =
     (let (allowed, rl1) = Allow now ''rule_retrieval'' (ruleRateLimiter s);
          s1 = s\<lparr>ruleRateLimiter := rl1\<rparr>
      in if \<not> allowed then (Inl (RateLimitExceeded ''rule retrieval''), s1)
         else
           (let (failed, d1) = db_statement env (db s1);
                s2 = s1\<lparr>db := d1\<rparr>
            in if failed then (Inl StoreError, s2)
               else (Inr (compliance_rules d1), s2)))"

definition maxRetries :: nat where
  "maxRetries = 3"

text \<open>
  The retry loop of \<open>DetermineApplicableRules\<close>: \<open>resp\<close> is the variable that each
  attempt assigns, and the loop is left early by a reply without error whose status is
  not 429. The sleep between attempts is not modelled.
\<close>

function groq_attempts ::
  "Env \<Rightarrow> string list \<times> string \<Rightarrow> nat \<Rightarrow> string list response option
     \<Rightarrow> error + string list response option" where
  "groq_attempts env req attempt resp =
     (if attempt < maxRetries then
        (if newRequest_fails env then Inl RequestError
         else
           (case client_Do env req attempt of
              DoOK r \<Rightarrow>
                if fst r \<noteq> 429 then Inr (Some r)
                else groq_attempts env req (attempt + 1) (Some r)
            | DoError r \<Rightarrow> groq_attempts env req (attempt + 1) r))
      else Inr resp)"
  by pat_completeness auto
termination
  by (relation "measure (\<lambda>(env, req, attempt, resp). maxRetries - attempt)") auto

definition rule_detail :: "ComplianceRule \<Rightarrow> string" where
  "rule_detail rule =
     cr_Name rule @ '': '' @ cr_Description rule @ '' (Pattern: '' @ cr_Pattern rule @ '')''"

text \<open>
  \<open>DetermineApplicableRules\<close>. After the retry loop the source reads \<open>resp.StatusCode\<close>
  without a check of \<open>resp\<close>: with \<open>resp = nil\<close> this is a nil pointer dereference.
\<close>

definition DetermineApplicableRules ::
  "Env \<Rightarrow> time \<Rightarrow> string \<Rightarrow> Service \<Rightarrow> string list result \<times> Service" where
  "DetermineApplicableRules env now ocrText s =
     (let (allowed, rl1) = Allow now ''groq_api_call'' (groqRateLimiter s);
          s1 = s\<lparr>groqRateLimiter := rl1\<rparr>
      in if \<not> allowed then (Returned (fallbackRuleExtraction ocrText []), s1)
         else
           (case GetAllComplianceRules env now s1 of
              (Inl err, s2) \<Rightarrow> (Failed err, s2)
            | (Inr allRules, s2) \<Rightarrow>
                (let ruleDetails = map rule_detail allRules;
                     ruleNames = map cr_Name allRules
                 in if VITE_GROQ_API_KEY env = [] then (Failed MissingAPIKey, s2)
                    else if marshal_fails env
                    then (Returned (fallbackRuleExtraction ocrText ruleNames), s2)
                    else
                      (case groq_attempts env (ruleDetails, ocrText) 0 None of
                         Inl err \<Rightarrow> (Failed err, s2)
                       | Inr None \<Rightarrow> (Panicked, s2)
                       | Inr (Some (StatusCode, Body)) \<Rightarrow>
                           if StatusCode \<noteq> 200
                           then (Returned (fallbackRuleExtraction ocrText ruleNames), s2)
                           else
                             (case Body of
                                Unreadable \<Rightarrow>
                                  (Returned (fallbackRuleExtraction ocrText ruleNames), s2)
                              | NotJSON \<Rightarrow>
                                  (Returned (fallbackRuleExtraction ocrText ruleNames), s2)
                              | Choices [] \<Rightarrow> (Returned [], s2)
                              | Choices (BadContent # _) \<Rightarrow>
                                  (Returned (fallbackRuleExtraction ocrText ruleNames), s2)
                              | Choices (Content violatedRules # _) \<Rightarrow>
                                  if length violatedRules = 0 then (Returned violatedRules, s2)
                                  else
                                    (Returned (filter (contains ruleNames) violatedRules),
                                     s2))))))"

section \<open>DetermineApplicableRulesBatch (service/compliance\_service.go)\<close>

text \<open>The decimal digits of a number, as \<open>%d\<close> prints it.\<close>

fun decimal :: "nat \<Rightarrow> string" where
  "decimal n =
     (if n < 10 then [char_of (48 + n)]
      else decimal (n div 10) @ [char_of (48 + n mod 10)])"


text \<open>The retry loop of \<open>sendBatchComplianceRequest\<close>: left by the first reply without error.\<close>

function batch_attempts ::
  "(nat \<Rightarrow> (string \<times> string list) list reply) \<Rightarrow> nat
     \<Rightarrow> error + (string \<times> string list) list response" where
  "batch_attempts do attempt =
     (if attempt < 3 then
        (case do attempt of
           DoOK r \<Rightarrow> Inr r
         | DoError r \<Rightarrow> batch_attempts do (attempt + 1))
      else Inl RequestError)"
  by pat_completeness auto
termination
  by (relation "measure (\<lambda>(do, attempt). 3 - attempt)") auto







declare groq_attempts.simps [simp del] batch_attempts.simps [simp del] decimal.simps [simp del]




section \<open>Example environment and service\<close>

text \<open>
  An environment with the credential set, in which the remote service answers every
  attempt of a single classification with \<open>single\<close> and every attempt of a batch request
  with \<open>batch\<close>, the database never fails, and a month is counted as 30 days.
\<close>

definition example_env ::
  "(nat \<Rightarrow> string list reply) \<Rightarrow> (nat \<Rightarrow> (string \<times> string list) list reply) \<Rightarrow> Env" where
  "example_env single batch =
     \<lparr>VITE_GROQ_API_KEY = ''gsk-key'', marshal_fails = False, newRequest_fails = False,
      client_Do = (\<lambda>req. single), batch_Do = (\<lambda>req i. batch), db_fails = (\<lambda>n. False),
      gen_random_uuid = (\<lambda>n. ''uuid-'' @ decimal n),
      AddDate = (\<lambda>t years months days.
                   t + (365 * years + 30 * months + days) * (24 * 60 * minute))\<rparr>"

text \<open>A service started at the instant 0 whose store holds the given catalog and nothing else.\<close>

definition example_service :: "ComplianceRule list \<Rightarrow> Service" where
  "example_service rules =
     \<lparr>db = \<lparr>compliance_rules = rules, action_items = [], document_rule_results = [],
            documents = [], statements = 0\<rparr>,
      groqRateLimiter = groqRateLimiter_init 0, ruleRateLimiter = ruleRateLimiter_init 0\<rparr>"

definition batch_ok :: "nat \<Rightarrow> (string \<times> string list) list reply" where
  "batch_ok attempt =
     DoOK (200, Choices [Content [(''doc_0'', [''NDA Check'', ''Made Up Rule'']),
                                   (''doc_1'', [''Made Up Rule''])]])"

section \<open>The action item lifecycle (CreateActionItems, UpdateActionItem)\<close>

text \<open>
  \<open>strings.Title\<close> on ASCII text: a letter that follows a separator (at the start, or
  after a byte that is not a letter, a digit or an underscore) is put in upper case. Bytes
  beyond ASCII are taken as parts of letters and left as they are.
\<close>

definition upper_byte :: "char \<Rightarrow> char" where
  "upper_byte c =
     (case map_of (zip ''abcdefghijklmnopqrstuvwxyz'' ''ABCDEFGHIJKLMNOPQRSTUVWXYZ'') c of
        Some u \<Rightarrow> u
      | None \<Rightarrow> c)"

definition isSeparator :: "char \<Rightarrow> bool" where
  "isSeparator c \<longleftrightarrow>
     c \<notin> set ''0123456789abcdefghijklmnopqrstuvwxyzABCDEFGHIJKLMNOPQRSTUVWXYZ_'' \<and>
     (of_char c :: nat) < 128"

fun title_from :: "char \<Rightarrow> string \<Rightarrow> string" where
  "title_from prev [] = []"
| "title_from prev (c # cs) = (if isSeparator prev then upper_byte c else c) # title_from c cs"

definition Title :: "string \<Rightarrow> string" where
  "Title s = title_from (CHR '' '') s"

text \<open>\<open>v, _ := m[key].(string)\<close>: the empty string when the entry is absent or not a string.\<close>

definition string_or_empty :: "json option \<Rightarrow> string" where
  "string_or_empty v = (case as_string v of Some s \<Rightarrow> s | None \<Rightarrow> [])"

text \<open>
  \<open>json.Unmarshal\<close> into a \<open>[]map[string]interface{}\<close>: \<open>null\<close> gives the nil slice, an
  array of objects (or \<open>null\<close>s, which become nil maps and read like empty ones) gives
  its elements, and anything else is an error.
\<close>

definition Unmarshal_results :: "rawjson \<Rightarrow> error + gomap list" where
  "Unmarshal_results raw =
     (case raw of
        Encoded JNull \<Rightarrow> Inr []
      | Encoded (JArr vs) \<Rightarrow>
          if list_all (\<lambda>v. case v of JObj m \<Rightarrow> True | JNull \<Rightarrow> True | _ \<Rightarrow> False) vs
          then Inr (map (\<lambda>v. case v of JObj m \<Rightarrow> m | _ \<Rightarrow> Map.empty) vs)
          else Inl JSONError
      | _ \<Rightarrow> Inl JSONError)"

text \<open>
  \<open>json.Unmarshal\<close> into a \<open>map[string]interface{}\<close> that was made empty: an object
  gives its members, \<open>null\<close> sets the map variable to nil (the result \<open>None\<close>), and
  anything else is an error.
\<close>

definition Unmarshal_map :: "rawjson \<Rightarrow> error + gomap option" where
  "Unmarshal_map raw =
     (case raw of
        Encoded JNull \<Rightarrow> Inr None
      | Encoded (JObj m) \<Rightarrow> Inr (Some m)
      | _ \<Rightarrow> Inl JSONError)"

text \<open>
  The map that \<open>UpdateActionItem\<close> goes on with after it has looked at a stored payload:
  a fresh map when there are no bytes or they do not decode into a map, the decoded map
  otherwise; \<open>None\<close> is the nil map.
\<close>

definition payload_map :: "rawjson \<Rightarrow> gomap option" where
  "payload_map raw =
     (if raw \<noteq> NoBytes then
        (case Unmarshal_map raw of
           Inl err \<Rightarrow> Some Map.empty
         | Inr m \<Rightarrow> m)
      else Some Map.empty)"

text \<open>
  The statements of the store that the lifecycle uses. \<open>db_First\<close> is \<open>First\<close> with a
  condition: the first row of the table that meets it, \<open>RecordNotFound\<close> when there is
  none. \<open>db_write\<close> is a statement that changes the store when it does not fail. A
  created row gets its identifier from the database and is put at the end of its
  table.
\<close>

definition db_First :: "Env \<Rightarrow> ('r \<Rightarrow> bool) \<Rightarrow> (DB \<Rightarrow> 'r list) \<Rightarrow> DB \<Rightarrow> (error + 'r) \<times> DB" where
  "db_First env cond table d =
     (let (failed, d1) = db_statement env d
      in if failed then (Inl StoreError, d1)
         else (case find cond (table d1) of
                 None \<Rightarrow> (Inl RecordNotFound, d1)
               | Some row \<Rightarrow> (Inr row, d1)))"

definition db_write :: "Env \<Rightarrow> (DB \<Rightarrow> DB) \<Rightarrow> DB \<Rightarrow> error option \<times> DB" where
  "db_write env change d =
     (let (failed, d1) = db_statement env d
      in if failed then (Some StoreError, d1) else (None, change d1))"

definition Create_ActionItem :: "Env \<Rightarrow> ActionItem \<Rightarrow> DB \<Rightarrow> error option \<times> DB" where
  "Create_ActionItem env action d =
     db_write env
       (\<lambda>d1. d1\<lparr>action_items :=
                  action_items d1 @ [action\<lparr>ai_ID := gen_random_uuid env (statements d)\<rparr>]\<rparr>) d"

definition Create_DocumentRuleResult ::
  "Env \<Rightarrow> DocumentRuleResult \<Rightarrow> DB \<Rightarrow> error option \<times> DB" where
  "Create_DocumentRuleResult env docResult d =
     db_write env
       (\<lambda>d1. d1\<lparr>document_rule_results :=
                  document_rule_results d1
                    @ [docResult\<lparr>drr_ID := gen_random_uuid env (statements d)\<rparr>]\<rparr>) d"

text \<open>
  The loop of \<open>CreateActionItems\<close> over the decoded outcomes. The clock is read once for
  the call and handed in as \<open>now\<close>.
\<close>

fun create_loop :: "Env \<Rightarrow> time \<Rightarrow> Document \<Rightarrow> gomap list \<Rightarrow> DB \<Rightarrow> unit result \<times> DB" where
  "create_loop env now doc [] d = (Returned (), d)"
| "create_loop env now doc (result # rest) d =
     (case as_string (result ''status'') of
        None \<Rightarrow> create_loop env now doc rest d
      | Some status \<Rightarrow>
          if status \<noteq> ''fail'' then create_loop env now doc rest d
          else
            (case as_string (result ''rule_name'') of
               None \<Rightarrow> create_loop env now doc rest d
             | Some ruleName \<Rightarrow>
                 (case db_First env (\<lambda>r. cr_Name r = ruleName) compliance_rules d of
                    (Inl err, d1) \<Rightarrow> create_loop env now doc rest d1
                  | (Inr rule, d1) \<Rightarrow>
                      if cr_ID rule = [] then create_loop env now doc rest d1
                      else
                        (let explanation = string_or_empty (result ''explanation'');
                             severity = string_or_empty (result ''severity'');
                             action =
                               \<lparr>ai_ID = [], ai_DocumentID = doc_ID doc, ai_RuleID = cr_ID rule,
                                ai_Description =
                                  ''Address '' @ ruleName @ '' non-compliance: '' @ explanation,
                                ai_AssignedTo = [], ai_Status = ''pending'',
                                ai_Priority = Title (ToLower severity),
                                ai_DueDate = AddDate env now 0 1 0,
                                ai_CreatedAt = now, ai_UpdatedAt = now\<rparr>
                         in case Create_ActionItem env action d1 of
                              (Some err, d2) \<Rightarrow> (Failed err, d2)
                            | (None, d2) \<Rightarrow>
                                (let docResult =
                                       \<lparr>drr_ID = [], drr_DocumentID = doc_ID doc,
                                        drr_RuleID = cr_ID rule, drr_Status = ''fail'',
                                        drr_Details = Encoded (JObj result),
                                        drr_CreatedAt = now\<rparr>
                                 in case Create_DocumentRuleResult env docResult d2 of
                                      (Some err, d3) \<Rightarrow> (Failed err, d3)
                                    | (None, d3) \<Rightarrow> create_loop env now doc rest d3)))))"

definition CreateActionItems :: "Env \<Rightarrow> time \<Rightarrow> Document \<Rightarrow> DB \<Rightarrow> unit result \<times> DB" where
  "CreateActionItems env now doc d =
     (case Unmarshal_results (doc_ParsedData doc) of
        Inl err \<Rightarrow> (Failed err, d)
      | Inr results \<Rightarrow> create_loop env now doc results d)"

text \<open>
  \<open>UpdateActionItem\<close>. Writing an entry into a nil map panics; \<open>json.Marshal\<close> of a map
  of decoded values does not fail.
\<close>

definition UpdateActionItem :: "Env \<Rightarrow> time \<Rightarrow> string \<Rightarrow> DB \<Rightarrow> unit result \<times> DB" where
  "UpdateActionItem env now actionID d =
     (case db_First env (\<lambda>a. ai_ID a = actionID) action_items d of
        (Inl err, d1) \<Rightarrow> (Failed err, d1)
      | (Inr action, d1) \<Rightarrow>
          (case db_write env
                  (\<lambda>d. d\<lparr>action_items :=
                           map (\<lambda>a. if ai_ID a = ai_ID action
                                     then a\<lparr>ai_Status := ''completed'', ai_UpdatedAt := now\<rparr>
                                     else a)
                             (action_items d)\<rparr>) d1 of
             (Some err, d2) \<Rightarrow> (Failed err, d2)
           | (None, d2) \<Rightarrow>
               (case db_First env
                       (\<lambda>r. drr_DocumentID r = ai_DocumentID action \<and>
                             drr_RuleID r = ai_RuleID action)
                       document_rule_results d2 of
                  (Inl err, d3) \<Rightarrow> (Failed err, d3)
                | (Inr docResult, d3) \<Rightarrow>
                    (case payload_map (drr_Details docResult) of
                       None \<Rightarrow> (Panicked, d3)
                     | Some details \<Rightarrow>
                         (let details = details(''explanation'' \<mapsto> JStr ''No issues'');
                              docResult = docResult\<lparr>drr_Status := ''resolved'',
                                            drr_Details := Encoded (JObj details),
                                            drr_CreatedAt := now\<rparr>
                          in case db_write env
                                    (\<lambda>d. d\<lparr>document_rule_results :=
                                             map (\<lambda>r. if drr_ID r = drr_ID docResult
                                                       then docResult else r)
                                               (document_rule_results d)\<rparr>) d3 of
                               (Some err, d4) \<Rightarrow> (Failed err, d4)
                             | (None, d4) \<Rightarrow>
                                 (case db_First env (\<lambda>x. doc_ID x = ai_DocumentID action)
                                         documents d4 of
                                    (Inl err, d5) \<Rightarrow> (Failed err, d5)
                                  | (Inr doc, d5) \<Rightarrow>
                                      (case payload_map (doc_ParsedData doc) of
                                         None \<Rightarrow> (Panicked, d5)
                                       | Some parsedData \<Rightarrow>
                                           (let parsedData = parsedData(''status'' \<mapsto> JBool True)
                                            in case db_write env
                                                  (\<lambda>d. d\<lparr>documents :=
                                                     map (\<lambda>x. if doc_ID x = doc_ID doc
                                                       then x\<lparr>doc_ParsedData :=
                                                                 Encoded (JObj parsedData),
                                                              doc_UpdatedAt := now\<rparr>
                                                       else x)
                                                      (documents d)\<rparr>) d5 of
                                                 (Some err, d6) \<Rightarrow> (Failed err, d6)
                                               | (None, d6) \<Rightarrow> (Returned (), d6)))))))))"

text \<open>
  The outcomes for which \<open>CreateActionItems\<close> has to create something: status \<open>fail\<close>
  and a \<open>rule_name\<close> that is the name of a rule of the catalog.
\<close>

definition names_rule :: "ComplianceRule list \<Rightarrow> gomap \<Rightarrow> bool" where
  "names_rule rules r \<longleftrightarrow>
     as_string (r ''status'') = Some ''fail'' \<and>
     (\<exists>rule \<in> set rules. as_string (r ''rule_name'') = Some (cr_Name rule))"

text \<open>
  What the specification says of the action item and of the rule result created for
  such an outcome \<open>r\<close>: the item is pending, its priority is derived from the severity in
  the outcome, it is due one month after the creation time, and it belongs to the
  document and to a rule of the catalog with the outcome's rule name; the result has the
  status \<open>fail\<close>, the outcome as its details, and the same document and rule.
\<close>

definition pending_for ::
  "Env \<Rightarrow> time \<Rightarrow> Document \<Rightarrow> ComplianceRule list \<Rightarrow> ActionItem \<Rightarrow> gomap \<Rightarrow> bool" where
  "pending_for env now doc rules a r \<longleftrightarrow>
     ai_Status a = ''pending'' \<and>
     ai_Priority a = Title (ToLower (string_or_empty (r ''severity''))) \<and>
     ai_DueDate a = AddDate env now 0 1 0 \<and>
     ai_CreatedAt a = now \<and>
     ai_DocumentID a = doc_ID doc \<and>
     (\<exists>rule \<in> set rules.
        as_string (r ''rule_name'') = Some (cr_Name rule) \<and> ai_RuleID a = cr_ID rule)"

definition fail_result_for ::
  "Document \<Rightarrow> ComplianceRule list \<Rightarrow> DocumentRuleResult \<Rightarrow> gomap \<Rightarrow> bool" where
  "fail_result_for doc rules x r \<longleftrightarrow>
     drr_Status x = ''fail'' \<and>
     drr_Details x = Encoded (JObj r) \<and>
     drr_DocumentID x = doc_ID doc \<and>
     (\<exists>rule \<in> set rules.
        as_string (r ''rule_name'') = Some (cr_Name rule) \<and> drr_RuleID x = cr_ID rule)"

text \<open>
  The three effects of completing an action item, on the tables. \<open>stored_object\<close> is
  what can be kept of a stored payload: its members when it is a JSON object, nothing
  otherwise.
\<close>

definition stored_object :: "rawjson \<Rightarrow> gomap" where
  "stored_object raw = (case raw of Encoded (JObj m) \<Rightarrow> m | _ \<Rightarrow> Map.empty)"




text \<open>
  The second and the third block of \<open>UpdateActionItem\<close> (the rule result, then the
  document), named so that each can be reasoned about on its own; \<open>UpdateActionItem\<close>
  is shown below to run them in this order.
\<close>

definition document_step :: "Env \<Rightarrow> time \<Rightarrow> ActionItem \<Rightarrow> DB \<Rightarrow> unit result \<times> DB" where
  "document_step env now action d4 =
     (case db_First env (\<lambda>x. doc_ID x = ai_DocumentID action) documents d4 of
        (Inl err, d5) \<Rightarrow> (Failed err, d5)
      | (Inr doc, d5) \<Rightarrow>
          (case payload_map (doc_ParsedData doc) of
             None \<Rightarrow> (Panicked, d5)
           | Some parsedData \<Rightarrow>
               (let parsedData = parsedData(''status'' \<mapsto> JBool True)
                in case db_write env
                      (\<lambda>d. d\<lparr>documents :=
                         map (\<lambda>x. if doc_ID x = doc_ID doc
                           then x\<lparr>doc_ParsedData := Encoded (JObj parsedData),
                                  doc_UpdatedAt := now\<rparr>
                           else x)
                          (documents d)\<rparr>) d5 of
                     (Some err, d6) \<Rightarrow> (Failed err, d6)
                   | (None, d6) \<Rightarrow> (Returned (), d6))))"

definition result_step :: "Env \<Rightarrow> time \<Rightarrow> ActionItem \<Rightarrow> DB \<Rightarrow> unit result \<times> DB" where
  "result_step env now action d2 =
     (case db_First env
             (\<lambda>r. drr_DocumentID r = ai_DocumentID action \<and> drr_RuleID r = ai_RuleID action)
             document_rule_results d2 of
        (Inl err, d3) \<Rightarrow> (Failed err, d3)
      | (Inr docResult, d3) \<Rightarrow>
          (case payload_map (drr_Details docResult) of
             None \<Rightarrow> (Panicked, d3)
           | Some details \<Rightarrow>
               (let details = details(''explanation'' \<mapsto> JStr ''No issues'');
                    docResult = docResult\<lparr>drr_Status := ''resolved'',
                                  drr_Details := Encoded (JObj details),
                                  drr_CreatedAt := now\<rparr>
                in case db_write env
                          (\<lambda>d. d\<lparr>document_rule_results :=
                                   map (\<lambda>r. if drr_ID r = drr_ID docResult
                                             then docResult else r)
                                     (document_rule_results d)\<rparr>) d3 of
                     (Some err, d4) \<Rightarrow> (Failed err, d4)
                   | (None, d4) \<Rightarrow> document_step env now action d4)))"

text \<open>Example rows: a document with three outcomes, and a store with a pending item for it.\<close>

definition outcome_fail_other :: gomap where
  "outcome_fail_other = [''rule_name'' \<mapsto> JStr ''Retention Policy'', ''severity'' \<mapsto> JStr ''low'',
     ''status'' \<mapsto> JStr ''fail'', ''explanation'' \<mapsto> JStr ''violated'']"

definition example_doc :: Document where
  "example_doc =
     \<lparr>doc_ID = ''doc-1'', doc_Title = ''contract'', doc_FileType = ''pdf'',
      doc_OriginalURL = ''https://store/contract.pdf'', doc_OcrText = ''Top secret'',
      doc_ParsedData =
        Encoded (JArr [JObj outcome_pass_nda, JObj outcome_fail_nda, JObj outcome_fail_other]),
      doc_RiskScore = 3, doc_CreatedAt = 0, doc_UpdatedAt = 0\<rparr>"

definition example_outcomes :: "gomap list" where
  "example_outcomes = [outcome_pass_nda, outcome_fail_nda, outcome_fail_other]"

text \<open>An environment in which the remote service cannot be reached and the database works.\<close>

definition offline_env :: Env where
  "offline_env = example_env (\<lambda>attempt. DoError None) (\<lambda>attempt. DoError None)"

definition catalog_store :: DB where
  "catalog_store = \<lparr>compliance_rules = [nda_rule], action_items = [], document_rule_results = [],
            documents = [], statements = 0\<rparr>"

definition example_action :: ActionItem where
  "example_action =
     \<lparr>ai_ID = ''action-1'', ai_DocumentID = ''doc-1'', ai_RuleID = ''rule-1'',
      ai_Description = ''Address NDA Check non-compliance: violated'', ai_AssignedTo = [],
      ai_Status = ''pending'', ai_Priority = ''High'', ai_DueDate = 100, ai_CreatedAt = 5,
      ai_UpdatedAt = 5\<rparr>"

definition example_result :: DocumentRuleResult where
  "example_result =
     \<lparr>drr_ID = ''result-1'', drr_DocumentID = ''doc-1'', drr_RuleID = ''rule-1'',
      drr_Status = ''fail'', drr_Details = Encoded (JObj outcome_fail_nda), drr_CreatedAt = 5\<rparr>"

definition example_store :: DB where
  "example_store = \<lparr>compliance_rules = [nda_rule], action_items = [example_action],
     document_rule_results = [example_result], documents = [example_doc], statements = 3\<rparr>"



definition store_with_null_details :: DB where
  "store_with_null_details =
     example_store\<lparr>document_rule_results := [example_result\<lparr>drr_Details := Encoded JNull\<rparr>]\<rparr>"

section \<open>Properties of the rate limiter\<close>

lemma Allow_fields:
  "limit (snd (Allow now key rl)) = limit rl"
  "window (snd (Allow now key rl)) = window rl"
  by (simp_all add: Allow_def Let_def)

lemma Allow_in_window:
  assumes "now - lastReset rl \<le> window rl"
  shows "fst (Allow now key rl) = (count_of (requestCount rl) key + 1 \<le> limit rl)"
    and "lastReset (snd (Allow now key rl)) = lastReset rl"
    and "count_of (requestCount (snd (Allow now key rl))) k =
           count_of (requestCount rl) k + (if k = key then 1 else 0)"
  using assms by (simp_all add: Allow_def Let_def count_of_def)

lemma Allow_calls_Cons:
  "fst (Allow_calls rl ((now, key) # cs)) =
     fst (Allow now key rl) # fst (Allow_calls (snd (Allow now key rl)) cs)"
  by (simp add: case_prod_beta Let_def)

lemma Allow_calls_in_window:
  assumes "\<forall>c \<in> set cs. fst c - lastReset rl \<le> window rl"
      and "i < length cs" and "snd (cs ! i) = k"
  shows "fst (Allow_calls rl cs) ! i =
           (count_of (requestCount rl) k + int (calls_with k (take (Suc i) cs)) \<le> limit rl)"
  using assms
proof (induction cs arbitrary: rl i)
  case Nil
  then show ?case by simp
next
  case (Cons c cs)
  obtain now key where c: "c = (now, key)" by (cases c)
  let ?rl1 = "snd (Allow now key rl)"
  have inw: "now - lastReset rl \<le> window rl"
    using Cons.prems(1) c by simp
  show ?case
  proof (cases i)
    case 0
    then have "key = k" using Cons.prems(3) c by simp
    then show ?thesis
      using 0 c Allow_in_window(1)[OF inw, of key]
      by (simp add: calls_with_def Allow_calls_Cons del: Allow_calls.simps)
  next
    case (Suc j)
    have rest: "\<forall>c \<in> set cs. fst c - lastReset ?rl1 \<le> window ?rl1"
      using Cons.prems(1) Allow_in_window(2)[OF inw] by (simp add: Allow_fields)
    have j: "j < length cs" "snd (cs ! j) = k"
      using Cons.prems(2,3) Suc by simp_all
    have ih: "fst (Allow_calls ?rl1 cs) ! j =
           (count_of (requestCount ?rl1) k + int (calls_with k (take (Suc j) cs)) \<le> limit ?rl1)"
      by (rule Cons.IH[OF rest j])
    have "fst (Allow_calls rl (c # cs)) ! i = fst (Allow_calls ?rl1 cs) ! j"
      using Suc c by (simp add: Allow_calls_Cons del: Allow_calls.simps)
    also have "\<dots> = (count_of (requestCount rl) k + int (calls_with k (take (Suc i) (c # cs)))
                      \<le> limit rl)"
      unfolding ih using Suc c Allow_in_window(3)[OF inw, of key k]
      by (auto simp add: Allow_fields calls_with_def)
    finally show ?thesis .
  qed
qed

lemma Allow_after_window:
  assumes "now - lastReset rl > window rl"
  shows "fst (Allow now key rl) = (1 \<le> limit rl)"
  using assms by (simp add: Allow_def Let_def count_of_def)

lemma Allow_calls_count:
  assumes "\<forall>c \<in> set cs. fst c - lastReset rl \<le> window rl"
  shows "count_of (requestCount (snd (Allow_calls rl cs))) k
           = count_of (requestCount rl) k + int (calls_with k cs)
     \<and> lastReset (snd (Allow_calls rl cs)) = lastReset rl
     \<and> limit (snd (Allow_calls rl cs)) = limit rl
     \<and> window (snd (Allow_calls rl cs)) = window rl"
  using assms
proof (induction cs arbitrary: rl)
  case Nil
  then show ?case by (simp add: calls_with_def)
next
  case (Cons c cs)
  obtain now key where c: "c = (now, key)" by (cases c)
  have inw: "now - lastReset rl \<le> window rl"
    using Cons.prems c by simp
  have rest: "\<forall>c \<in> set cs. fst c - lastReset (snd (Allow now key rl))
                               \<le> window (snd (Allow now key rl))"
    using Cons.prems Allow_in_window(2)[OF inw] by (simp add: Allow_fields)
  show ?case
    using Cons.IH[OF rest] c Allow_in_window(2,3)[OF inw, of key]
    by (auto simp: case_prod_beta Let_def Allow_fields calls_with_def)
qed

lemma exhausted_ruleRateLimiter_fields:
  "count_of (requestCount exhausted_ruleRateLimiter) ''risk_score_calculation'' = 100"
  "lastReset exhausted_ruleRateLimiter = 0"
  "limit exhausted_ruleRateLimiter = 100"
  "window exhausted_ruleRateLimiter = minute"
proof -
  let ?rl = "ruleRateLimiter_init 0"
  let ?cs = "replicate 100 (1::int, ''risk_score_calculation'')"
  have w: "\<forall>c \<in> set ?cs. fst c - lastReset ?rl \<le> window ?rl"
    by (simp add: ruleRateLimiter_init_def NewRateLimiter_def minute_def)
  note c = Allow_calls_count[OF w, of "''risk_score_calculation''"]
  have cw: "calls_with ''risk_score_calculation'' ?cs = 100"
    by (simp add: calls_with_def)
  show "count_of (requestCount exhausted_ruleRateLimiter) ''risk_score_calculation'' = 100"
    "lastReset exhausted_ruleRateLimiter = 0"
    "limit exhausted_ruleRateLimiter = 100"
    "window exhausted_ruleRateLimiter = minute"
    using c cw
    by (simp_all add: exhausted_ruleRateLimiter_def ruleRateLimiter_init_def NewRateLimiter_def
        count_of_def)
qed

text \<open>
  C6. Take a limiter with a limit of at least 1. While no call falls after the end of the
  current window (\<open>now - lastReset \<le> window\<close>) and the key \<open>k\<close> has not been counted
  yet in this window, the j-th call with key \<open>k\<close> is allowed exactly when \<open>j \<le> limit\<close>:
  the first \<open>limit\<close> calls return true and call number \<open>limit + 1\<close> returns false,
  whatever other keys are used in between. A call made after the window has elapsed
  (\<open>now - lastReset > window\<close>) returns true, whatever the counts were before it.
\<close>

theorem RateLimiter_Allow_window:
  assumes "1 \<le> limit rl"
  shows "(requestCount rl k = None \<and> (\<forall>c \<in> set cs. fst c - lastReset rl \<le> window rl) \<and>
          i < length cs \<and> snd (cs ! i) = k
          \<longrightarrow> fst (Allow_calls rl cs) ! i = (int (calls_with k (take (Suc i) cs)) \<le> limit rl))
       \<and> (now - lastReset rl > window rl \<longrightarrow> fst (Allow now k rl))"
proof (intro conjI impI)
  assume a: "requestCount rl k = None \<and> (\<forall>c \<in> set cs. fst c - lastReset rl \<le> window rl) \<and>
          i < length cs \<and> snd (cs ! i) = k"
  then have "count_of (requestCount rl) k = 0" by (simp add: count_of_def)
  then show "fst (Allow_calls rl cs) ! i = (int (calls_with k (take (Suc i) cs)) \<le> limit rl)"
    using Allow_calls_in_window[of cs rl i k] a by simp
next
  assume "now - lastReset rl > window rl"
  then show "fst (Allow now k rl)"
    using Allow_after_window[of rl now k] assms by simp
qed

theorem RateLimiter_Allow_window_witness:
  "1 \<le> limit (NewRateLimiter 2 60 0)
   \<and> requestCount (NewRateLimiter 2 60 0) ''a'' = None
   \<and> list_all (\<lambda>c. fst c - lastReset (NewRateLimiter 2 60 0) \<le> window (NewRateLimiter 2 60 0))
         [(1, ''a''), (2, ''b''), (3, ''a''), (60, ''a'')]
   \<and> fst (Allow_calls (NewRateLimiter 2 60 0) [(1, ''a''), (2, ''b''), (3, ''a''), (60, ''a'')]) ! 2 = True
   \<and> fst (Allow_calls (NewRateLimiter 2 60 0) [(1, ''a''), (2, ''b''), (3, ''a''), (60, ''a'')]) ! 3 = False
   \<and> 1 \<le> limit exhausted_ruleRateLimiter
   \<and> window exhausted_ruleRateLimiter < (minute + 1) - lastReset exhausted_ruleRateLimiter
   \<and> fst (Allow (minute + 1) ''risk_score_calculation'' exhausted_ruleRateLimiter)"
  using RateLimiter_Allow_window[of "NewRateLimiter 2 60 0" "''a''"
          "[(1, ''a''), (2, ''b''), (3, ''a''), (60, ''a'')]" 2 0]
        RateLimiter_Allow_window[of "NewRateLimiter 2 60 0" "''a''"
          "[(1, ''a''), (2, ''b''), (3, ''a''), (60, ''a'')]" 3 0]
        RateLimiter_Allow_window[of exhausted_ruleRateLimiter "''risk_score_calculation''"
          "[]" 0 "minute + 1"]
  by (simp add: NewRateLimiter_def calls_with_def exhausted_ruleRateLimiter_fields)

section \<open>Properties of the risk score\<close>

lemma find_app:
  "find P (xs @ ys) = (case find P xs of None \<Rightarrow> find P ys | Some x \<Rightarrow> Some x)"
  by (induction xs) auto

lemma fold_ruleMap:
  "fold (\<lambda>rule m. m(cr_Name rule \<mapsto> rule)) rules m0 n =
     (case find (\<lambda>r. cr_Name r = n) (rev rules) of Some r \<Rightarrow> Some r | None \<Rightarrow> m0 n)"
  by (induction rules arbitrary: m0) (auto simp: find_app split: option.splits)

lemma build_ruleMap_catalog: "build_ruleMap rules = catalog_rule rules"
  by (rule ext) (simp add: build_ruleMap_def catalog_rule_def fold_ruleMap split: option.splits)

lemma severityWeights_weight:
  "(case severityWeights sev of Some w \<Rightarrow> w | None \<Rightarrow> 1.0) = severity_weight sev"
  by (simp add: severityWeights_def severity_weight_def)

lemma score_loop_step:
  "score_loop (catalog_rule rules) rules i (r # rs) acc =
     score_loop (catalog_rule rules) rules (Suc i) rs (acc + positional_weight rules (i, r))"
  by (simp add: positional_weight_def scored_name_def severityWeights_weight Let_def
      split: option.splits)

lemma score_loop_sum:
  "score_loop (catalog_rule rules) rules i results acc =
     acc + sum_list (map (positional_weight rules) (enumerate i results))"
proof (induction results arbitrary: i acc)
  case Nil
  then show ?case by simp
next
  case (Cons r rs)
  show ?case
    unfolding score_loop_step by (simp add: Cons.IH)
qed

lemma positional_named:
  assumes "as_string (r ''status'') = Some ''fail'' \<longrightarrow> as_string (r ''rule_name'') \<noteq> None"
  shows "positional_weight rules (i, r) = claimed_weight rules r"
  using assms
  by (auto simp: positional_weight_def claimed_weight_def scored_name_def split: option.splits)

lemma positional_claimed:
  assumes "\<forall>r \<in> set results.
             as_string (r ''status'') = Some ''fail'' \<longrightarrow> as_string (r ''rule_name'') \<noteq> None"
  shows "sum_list (map (positional_weight rules) (enumerate i results)) =
           claimed_score rules results"
  using assms
  by (induction results arbitrary: i) (simp_all add: claimed_score_def positional_named)

lemma claimed_score_mset:
  "claimed_score rules results = sum_mset (image_mset (claimed_weight rules) (mset results))"
  by (simp add: claimed_score_def sum_mset_sum_list[symmetric])

lemma claimed_score_no_fail:
  assumes "\<forall>r \<in> set results. as_string (r ''status'') \<noteq> Some ''fail''"
  shows "claimed_score rules results = 0"
  using assms by (induction results) (simp_all add: claimed_score_def claimed_weight_def)

lemma claimed_score_append:
  "claimed_score rules (xs @ ys) = claimed_score rules xs + claimed_score rules ys"
  by (simp add: claimed_score_def)

lemma CalculateRiskScore_allowed:
  "fst (Allow now ''risk_score_calculation'' rl) \<Longrightarrow>
   fst (CalculateRiskScore rl now results rules) = positional_score rules results"
  by (simp add: CalculateRiskScore_def case_prod_beta build_ruleMap_catalog score_loop_sum
      positional_score_def)

lemma CalculateRiskScore_denied:
  "\<not> fst (Allow now ''risk_score_calculation'' rl) \<Longrightarrow>
   fst (CalculateRiskScore rl now results rules) = 0"
  by (simp add: CalculateRiskScore_def case_prod_beta)

lemma CalculateRiskScore_named:
  assumes "\<forall>r \<in> set results.
             as_string (r ''status'') = Some ''fail'' \<longrightarrow> as_string (r ''rule_name'') \<noteq> None"
  shows "fst (CalculateRiskScore rl now results rules) =
          (if fst (Allow now ''risk_score_calculation'' rl) then claimed_score rules results
           else 0)"
  using positional_claimed[OF assms, of rules 0]
  by (simp add: CalculateRiskScore_def case_prod_beta build_ruleMap_catalog score_loop_sum)

lemma fresh_ruleRateLimiter_allows:
  "fst (Allow 1 ''risk_score_calculation'' (ruleRateLimiter_init 0))"
  by (simp add: Allow_def ruleRateLimiter_init_def NewRateLimiter_def minute_def count_of_def)

lemma exhausted_ruleRateLimiter_denies:
  "\<not> fst (Allow 1 ''risk_score_calculation'' exhausted_ruleRateLimiter)"
proof -
  have "1 - lastReset exhausted_ruleRateLimiter \<le> window exhausted_ruleRateLimiter"
    by (simp add: exhausted_ruleRateLimiter_fields minute_def)
  from Allow_in_window(1)[OF this, of "''risk_score_calculation''"] show ?thesis
    by (simp add: exhausted_ruleRateLimiter_fields)
qed

text \<open>
  C4, as stated, fails: an outcome with status \<open>fail\<close> and no \<open>rule_name\<close> is scored under
  the rule at its own index, so moving it changes the score. With the one-rule catalog
  \<open>[nda_rule]\<close> the list \<open>[outcome_fail_unnamed, outcome_pass_nda]\<close> scores 3 and the
  swapped list scores 0.
\<close>

theorem RiskScore_permutation_counterexample:
  "mset [outcome_fail_unnamed, outcome_pass_nda] = mset [outcome_pass_nda, outcome_fail_unnamed]
   \<and> fst (CalculateRiskScore (ruleRateLimiter_init 0) 1 [outcome_fail_unnamed, outcome_pass_nda] [nda_rule]) = 3
   \<and> fst (CalculateRiskScore (ruleRateLimiter_init 0) 1 [outcome_pass_nda, outcome_fail_unnamed] [nda_rule]) = 0"
  by (simp add: add_mset_commute CalculateRiskScore_allowed fresh_ruleRateLimiter_allows
      positional_score_def positional_weight_def scored_name_def catalog_rule_def
      severity_weight_def as_string_def nda_rule_def outcome_fail_unnamed_def
      outcome_pass_nda_def)

text \<open>
  C4, amended. When every outcome with status \<open>fail\<close> carries a string \<open>rule_name\<close>,
  permuting the outcome list does not change the score that \<open>CalculateRiskScore\<close>
  returns, for the same catalog and the same state of the rate limiter.
\<close>

theorem RiskScore_permutation:
  assumes "mset xs = mset ys"
      and "\<forall>r \<in> set xs.
             as_string (r ''status'') = Some ''fail'' \<longrightarrow> as_string (r ''rule_name'') \<noteq> None"
  shows "fst (CalculateRiskScore rl now xs rules) = fst (CalculateRiskScore rl now ys rules)"
proof -
  have "set ys = set xs"
    using assms(1) by (metis set_mset_mset)
  then have ys: "\<forall>r \<in> set ys.
             as_string (r ''status'') = Some ''fail'' \<longrightarrow> as_string (r ''rule_name'') \<noteq> None"
    using assms(2) by simp
  have "claimed_score rules xs = claimed_score rules ys"
    by (simp add: claimed_score_mset assms(1))
  then show ?thesis
    by (simp add: CalculateRiskScore_named[OF assms(2)] CalculateRiskScore_named[OF ys])
qed

theorem RiskScore_permutation_witness:
  "mset [outcome_fail_nda, outcome_pass_nda] = mset [outcome_pass_nda, outcome_fail_nda]
   \<and> as_string (outcome_fail_nda ''rule_name'') \<noteq> None
   \<and> as_string (outcome_pass_nda ''status'') \<noteq> Some ''fail''
   \<and> fst (CalculateRiskScore (ruleRateLimiter_init 0) 1 [outcome_fail_nda, outcome_pass_nda] [nda_rule])
     = fst (CalculateRiskScore (ruleRateLimiter_init 0) 1 [outcome_pass_nda, outcome_fail_nda] [nda_rule])"
proof -
  have p: "mset [outcome_fail_nda, outcome_pass_nda] = mset [outcome_pass_nda, outcome_fail_nda]"
    by (simp add: add_mset_commute)
  have n: "\<forall>r \<in> set [outcome_fail_nda, outcome_pass_nda].
         as_string (r ''status'') = Some ''fail'' \<longrightarrow> as_string (r ''rule_name'') \<noteq> None"
    by (simp add: outcome_fail_nda_def outcome_pass_nda_def as_string_def)
  have e: "as_string (outcome_fail_nda ''rule_name'') \<noteq> None"
    "as_string (outcome_pass_nda ''status'') \<noteq> Some ''fail''"
    by (simp_all add: outcome_fail_nda_def outcome_pass_nda_def as_string_def)
  show ?thesis
    using p e RiskScore_permutation[OF p n, of "ruleRateLimiter_init 0" 1 "[nda_rule]"] by blast
qed

text \<open>
  C5, as stated, fails in two ways. When the rate limiter denies the call, a single
  high-severity failure scores 0 where the claim says 3; and an outcome with status
  \<open>fail\<close> and no \<open>rule_name\<close> scores the weight of the catalog rule at its own index
  where the claim says it contributes nothing.
\<close>

theorem RiskScore_sum_counterexample:
  "fst (CalculateRiskScore exhausted_ruleRateLimiter 1 [outcome_fail_nda] [nda_rule]) = 0
   \<and> claimed_score [nda_rule] [outcome_fail_nda] = 3
   \<and> fst (CalculateRiskScore (ruleRateLimiter_init 0) 1 [outcome_fail_unnamed] [nda_rule]) = 3
   \<and> claimed_score [nda_rule] [outcome_fail_unnamed] = 0"
  by (simp add: CalculateRiskScore_denied exhausted_ruleRateLimiter_denies
      CalculateRiskScore_allowed fresh_ruleRateLimiter_allows
      claimed_score_def claimed_weight_def
      positional_score_def positional_weight_def scored_name_def catalog_rule_def
      severity_weight_def as_string_def nda_rule_def outcome_fail_unnamed_def
      outcome_fail_nda_def)

text \<open>
  C5, amended. When the rate limiter admits the call, \<open>CalculateRiskScore\<close> returns the sum,
  over the outcomes with status \<open>fail\<close> whose rule name is found in the catalog, of the
  weight of that rule's severity (high 3, medium 2, low 1, any other severity 1), where an
  outcome without a string \<open>rule_name\<close> is scored under the name of the catalog rule at
  its own index, if there is one; every other outcome adds nothing. When every failing
  outcome carries a \<open>rule_name\<close> this is the sum the specification describes; a list
  without a \<open>fail\<close> scores 0; a list whose only \<open>fail\<close> names a rule of severity
  \<open>high\<close> scores 3.
\<close>

theorem RiskScore_sum:
  assumes "fst (Allow now ''risk_score_calculation'' rl)"
  shows "fst (CalculateRiskScore rl now results rules) = positional_score rules results
     \<and> ((\<forall>r \<in> set results.
            as_string (r ''status'') = Some ''fail'' \<longrightarrow> as_string (r ''rule_name'') \<noteq> None)
          \<longrightarrow> fst (CalculateRiskScore rl now results rules) = claimed_score rules results)
     \<and> ((\<forall>r \<in> set results. as_string (r ''status'') \<noteq> Some ''fail'')
          \<longrightarrow> fst (CalculateRiskScore rl now results rules) = 0)
     \<and> (results = pre @ r # post
          \<and> (\<forall>x \<in> set (pre @ post). as_string (x ''status'') \<noteq> Some ''fail'')
          \<and> as_string (r ''status'') = Some ''fail'' \<and> as_string (r ''rule_name'') = Some n
          \<and> catalog_rule rules n = Some rule \<and> cr_Severity rule = ''high''
          \<longrightarrow> fst (CalculateRiskScore rl now results rules) = 3)"
proof (intro conjI impI)
  show "fst (CalculateRiskScore rl now results rules) = positional_score rules results"
    by (rule CalculateRiskScore_allowed[OF assms])
next
  assume "\<forall>r \<in> set results.
            as_string (r ''status'') = Some ''fail'' \<longrightarrow> as_string (r ''rule_name'') \<noteq> None"
  then show "fst (CalculateRiskScore rl now results rules) = claimed_score rules results"
    using assms by (simp add: CalculateRiskScore_named)
next
  assume nf: "\<forall>r \<in> set results. as_string (r ''status'') \<noteq> Some ''fail''"
  then have "\<forall>r \<in> set results.
            as_string (r ''status'') = Some ''fail'' \<longrightarrow> as_string (r ''rule_name'') \<noteq> None"
    by simp
  then show "fst (CalculateRiskScore rl now results rules) = 0"
    using assms nf by (simp add: CalculateRiskScore_named claimed_score_no_fail)
next
  assume a: "results = pre @ r # post
          \<and> (\<forall>x \<in> set (pre @ post). as_string (x ''status'') \<noteq> Some ''fail'')
          \<and> as_string (r ''status'') = Some ''fail'' \<and> as_string (r ''rule_name'') = Some n
          \<and> catalog_rule rules n = Some rule \<and> cr_Severity rule = ''high''"
  then have named: "\<forall>x \<in> set results.
            as_string (x ''status'') = Some ''fail'' \<longrightarrow> as_string (x ''rule_name'') \<noteq> None"
    by auto
  have pre: "claimed_score rules pre = 0" and post: "claimed_score rules post = 0"
    using a by (simp_all add: claimed_score_no_fail)
  have one: "claimed_score rules [r] = 3"
    using a by (simp add: claimed_score_def claimed_weight_def severity_weight_def)
  have "claimed_score rules results = claimed_score rules pre + (claimed_score rules [r]
          + claimed_score rules post)"
    using a claimed_score_append[of rules pre "[r] @ post"]
      claimed_score_append[of rules "[r]" post]
    by simp
  then have "claimed_score rules results = 3"
    by (simp add: pre post one)
  then show "fst (CalculateRiskScore rl now results rules) = 3"
    using assms named by (simp add: CalculateRiskScore_named)
qed

theorem RiskScore_sum_witness:
  "fst (Allow 1 ''risk_score_calculation'' (ruleRateLimiter_init 0))
   \<and> as_string (outcome_pass_nda ''status'') = Some ''pass''
   \<and> as_string (outcome_fail_nda ''status'') = Some ''fail''
   \<and> as_string (outcome_fail_nda ''rule_name'') = Some ''NDA Check''
   \<and> catalog_rule [nda_rule] ''NDA Check'' = Some nda_rule \<and> cr_Severity nda_rule = ''high''
   \<and> fst (CalculateRiskScore (ruleRateLimiter_init 0) 1
            [outcome_pass_nda, outcome_fail_nda, outcome_pass_nda] [nda_rule]) = 3
   \<and> claimed_score [nda_rule] [outcome_pass_nda, outcome_fail_nda, outcome_pass_nda] = 3
   \<and> fst (CalculateRiskScore (ruleRateLimiter_init 0) 1 [outcome_pass_nda, outcome_pass_nda] [nda_rule]) = 0"
proof -
  have g: "fst (Allow 1 ''risk_score_calculation'' (ruleRateLimiter_init 0))"
    by (rule fresh_ruleRateLimiter_allows)
  have facts: "as_string (outcome_pass_nda ''status'') = Some ''pass''"
    "as_string (outcome_fail_nda ''status'') = Some ''fail''"
    "as_string (outcome_fail_nda ''rule_name'') = Some ''NDA Check''"
    "catalog_rule [nda_rule] ''NDA Check'' = Some nda_rule" "cr_Severity nda_rule = ''high''"
    by (simp_all add: outcome_pass_nda_def outcome_fail_nda_def as_string_def catalog_rule_def
        nda_rule_def)
  show ?thesis
    using g facts
      RiskScore_sum[OF g, of "[outcome_pass_nda, outcome_fail_nda, outcome_pass_nda]" "[nda_rule]"
        "[outcome_pass_nda]" outcome_fail_nda "[outcome_pass_nda]" "''NDA Check''" nda_rule]
      RiskScore_sum[OF g, of "[outcome_pass_nda, outcome_pass_nda]" "[nda_rule]"
        "[]" outcome_fail_nda "[]" "''NDA Check''" nda_rule]
    by simp
qed

text \<open>
  C10. When the rate limiter \<open>ruleRateLimiter\<close> denies the key \<open>risk_score_calculation\<close>,
  \<open>CalculateRiskScore\<close> returns 0 whatever the outcomes and the catalog are. The result
  is a bare number, the same one that an admitted call returns for an empty outcome
  list, so the caller cannot tell the two apart.
\<close>

theorem RiskScore_gate_denied:
  assumes "\<not> fst (Allow now ''risk_score_calculation'' rl)"
  shows "fst (CalculateRiskScore rl now results rules) = 0
       \<and> fst (CalculateRiskScore rl now results rules)
           = fst (CalculateRiskScore rl2 now2 [] rules)"
  using assms by (simp add: CalculateRiskScore_def case_prod_beta)

theorem RiskScore_gate_denied_witness:
  "\<not> fst (Allow 1 ''risk_score_calculation'' exhausted_ruleRateLimiter)
   \<and> claimed_score [nda_rule] [outcome_fail_nda] = 3
   \<and> fst (CalculateRiskScore exhausted_ruleRateLimiter 1 [outcome_fail_nda] [nda_rule]) = 0
   \<and> fst (CalculateRiskScore exhausted_ruleRateLimiter 1 [outcome_fail_nda] [nda_rule])
       = fst (CalculateRiskScore (ruleRateLimiter_init 0) 1 [] [nda_rule])"
  using exhausted_ruleRateLimiter_denies
    RiskScore_gate_denied[OF exhausted_ruleRateLimiter_denies, of "[outcome_fail_nda]" "[nda_rule]"
      "ruleRateLimiter_init 0" 1]
  by (simp add: claimed_score_def claimed_weight_def catalog_rule_def severity_weight_def
      as_string_def nda_rule_def outcome_fail_nda_def)

section \<open>Properties of the fallback matcher\<close>

lemma Contains_sublist: "Contains s substr \<longleftrightarrow> sublist substr s"
  by (induction s) (simp_all add: sublist_Cons_right)








section \<open>Properties of the classifier\<close>

lemmas service_eval =
  example_env_def example_service_def groqRateLimiter_init_def ruleRateLimiter_init_def
  NewRateLimiter_def Allow_def count_of_def minute_def GetAllComplianceRules_def
  db_statement_def Let_def

lemmas fallback_eval =
  fallbackRuleExtraction_def matchCount_def ruleMatchers_def normalize_text_def ToLower_def
  lower_byte_def ReplaceAll_def strip_other_def kept_byte_def

lemma fallback_top_secret:
  "fallbackRuleExtraction ''Top secret'' ruleNames = [''Confidentiality Marking'', ''NDA Check'']"
  by (simp add: fallback_eval)


lemma contains_set: "contains slice item \<longleftrightarrow> item \<in> set slice"
  by (induction slice) auto

lemma GetAllComplianceRules_ok:
  assumes "fst (Allow now ''rule_retrieval'' (ruleRateLimiter s))"
      and "\<not> db_fails env (statements (db s))"
  shows "\<exists>s2. GetAllComplianceRules env now s = (Inr (compliance_rules (db s)), s2)"
  using assms by (simp add: GetAllComplianceRules_def db_statement_def case_prod_beta Let_def)

text \<open>
  The paths of \<open>DetermineApplicableRules\<close> once the limiters have admitted the call, the
  catalog has been read and the credential is set: what it returns is decided by the
  outcome of the retry loop.
\<close>

lemma DetermineApplicableRules_remote:
  assumes "fst (Allow now ''groq_api_call'' (groqRateLimiter s))"
      and "fst (Allow now ''rule_retrieval'' (ruleRateLimiter s))"
      and "\<not> db_fails env (statements (db s))"
      and "VITE_GROQ_API_KEY env \<noteq> []" and "\<not> marshal_fails env"
  shows "fst (DetermineApplicableRules env now ocrText s) =
     (case groq_attempts env (map rule_detail (compliance_rules (db s)), ocrText) 0 None of
        Inl err \<Rightarrow> Failed err
      | Inr None \<Rightarrow> Panicked
      | Inr (Some (StatusCode, Body)) \<Rightarrow>
          if StatusCode \<noteq> 200
          then Returned (fallbackRuleExtraction ocrText (map cr_Name (compliance_rules (db s))))
          else
            (case Body of
               Unreadable \<Rightarrow>
                 Returned (fallbackRuleExtraction ocrText (map cr_Name (compliance_rules (db s))))
             | NotJSON \<Rightarrow>
                 Returned (fallbackRuleExtraction ocrText (map cr_Name (compliance_rules (db s))))
             | Choices [] \<Rightarrow> Returned []
             | Choices (BadContent # _) \<Rightarrow>
                 Returned (fallbackRuleExtraction ocrText (map cr_Name (compliance_rules (db s))))
             | Choices (Content violatedRules # _) \<Rightarrow>
                 Returned (filter (contains (map cr_Name (compliance_rules (db s)))) violatedRules)))"
proof -
  let ?s1 = "s\<lparr>groqRateLimiter := snd (Allow now ''groq_api_call'' (groqRateLimiter s))\<rparr>"
  obtain s2 where g: "GetAllComplianceRules env now ?s1 = (Inr (compliance_rules (db s)), s2)"
    using GetAllComplianceRules_ok[of now ?s1 env] assms(2,3) by auto
  show ?thesis
    using assms(1,4,5) g
    by (simp add: DetermineApplicableRules_def case_prod_beta Let_def
        split: sum.splits option.splits body.splits list.splits content.splits)
qed

lemma DetermineApplicableRules_all_transport_errors:
  assumes "fst (Allow now ''groq_api_call'' (groqRateLimiter s))"
      and "fst (Allow now ''rule_retrieval'' (ruleRateLimiter s))"
      and "\<not> db_fails env (statements (db s))"
      and "VITE_GROQ_API_KEY env \<noteq> []" and "\<not> marshal_fails env" and "\<not> newRequest_fails env"
      and "\<forall>attempt < 3. client_Do env (map rule_detail (compliance_rules (db s)), ocrText) attempt
             = DoError None"
  shows "fst (DetermineApplicableRules env now ocrText s) = Panicked"
proof -
  have "groq_attempts env (map rule_detail (compliance_rules (db s)), ocrText) 0 None = Inr None"
    using assms(6,7) by (simp add: groq_attempts.simps maxRetries_def)
  then show ?thesis
    by (simp add: DetermineApplicableRules_remote[OF assms(1-5)])
qed

lemma DetermineApplicableRules_bad_status:
  assumes "fst (Allow now ''groq_api_call'' (groqRateLimiter s))"
      and "fst (Allow now ''rule_retrieval'' (ruleRateLimiter s))"
      and "\<not> db_fails env (statements (db s))"
      and "VITE_GROQ_API_KEY env \<noteq> []" and "\<not> marshal_fails env" and "\<not> newRequest_fails env"
      and "client_Do env (map rule_detail (compliance_rules (db s)), ocrText) 0 = DoOK (st, b)"
      and "st \<noteq> 200" and "st \<noteq> 429"
  shows "fst (DetermineApplicableRules env now ocrText s)
           = Returned (fallbackRuleExtraction ocrText (map cr_Name (compliance_rules (db s))))"
proof -
  have "groq_attempts env (map rule_detail (compliance_rules (db s)), ocrText) 0 None
          = Inr (Some (st, b))"
    using assms(6,7,9) by (simp add: groq_attempts.simps maxRetries_def)
  then show ?thesis
    using assms(8) by (simp add: DetermineApplicableRules_remote[OF assms(1-5)])
qed

lemma DetermineApplicableRules_answer_validated:
  assumes "fst (Allow now ''groq_api_call'' (groqRateLimiter s))"
      and "fst (Allow now ''rule_retrieval'' (ruleRateLimiter s))"
      and "\<not> db_fails env (statements (db s))"
      and "VITE_GROQ_API_KEY env \<noteq> []" and "\<not> marshal_fails env" and "\<not> newRequest_fails env"
      and "client_Do env (map rule_detail (compliance_rules (db s)), ocrText) 0
             = DoOK (200, Choices (Content violatedRules # rest))"
  shows "\<exists>names. fst (DetermineApplicableRules env now ocrText s) = Returned names
           \<and> set names \<subseteq> set (map cr_Name (compliance_rules (db s)))"
proof -
  have "groq_attempts env (map rule_detail (compliance_rules (db s)), ocrText) 0 None
          = Inr (Some (200, Choices (Content violatedRules # rest)))"
    using assms(6,7) by (simp add: groq_attempts.simps maxRetries_def)
  then show ?thesis
    by (auto simp: DetermineApplicableRules_remote[OF assms(1-5)] contains_set)
qed

lemma DetermineApplicableRules_rate_limited:
  assumes "\<not> fst (Allow now ''groq_api_call'' (groqRateLimiter s))"
  shows "fst (DetermineApplicableRules env now ocrText s) = Returned (fallbackRuleExtraction ocrText [])"
  using assms by (simp add: DetermineApplicableRules_def case_prod_beta Let_def)

text \<open>
  C1 fails on the fallback path. The catalog holds the single rule \<open>NDA Check\<close>, the
  limiters admit the call, the credential is set and the remote service answers with the
  status 500. \<open>DetermineApplicableRules\<close> then returns what \<open>fallbackRuleExtraction\<close>
  found in the text \<open>Top secret\<close>, and \<open>Confidentiality Marking\<close>, which the catalog
  does not hold, is among the returned names. (The path of a parsed remote answer does
  filter the names against the catalog.)
\<close>

theorem DetermineApplicableRules_fallback_unvalidated:
  "fst (DetermineApplicableRules (example_env (\<lambda>attempt. DoOK (500, NotJSON)) batch_ok) 1
          ''Top secret'' (example_service [nda_rule]))
     = Returned [''Confidentiality Marking'', ''NDA Check'']
   \<and> ''Confidentiality Marking'' \<notin> set (map cr_Name [nda_rule])"
  by (simp add: service_eval DetermineApplicableRules_def groq_attempts.simps maxRetries_def
      fallback_top_secret nda_rule_def)

text \<open>
  C2 fails when every attempt ends with a transport error. Each of the three attempts
  leaves \<open>resp = nil\<close>, and the status check after the loop dereferences it: the call
  panics and returns neither the fallback result nor an error.
\<close>

theorem DetermineApplicableRules_transport_errors_panic:
  "fst (DetermineApplicableRules offline_env 1 ''Top secret'' (example_service [nda_rule]))
     = Panicked"
  by (simp add: offline_env_def service_eval DetermineApplicableRules_def groq_attempts.simps
      maxRetries_def)

section \<open>Properties of the batch classifier\<close>








section \<open>Properties of the action item lifecycle\<close>

lemma find_rule_None: "find (\<lambda>q. cr_Name q = n) rules = None \<longleftrightarrow> n \<notin> cr_Name ` set rules"
  by (auto simp: find_None_iff)

lemma find_rule_Some:
  "find (\<lambda>q. cr_Name q = n) rules = Some rule \<Longrightarrow> rule \<in> set rules \<and> cr_Name rule = n"
  by (auto simp: find_Some_iff)

lemma create_loop_skip:
  assumes "\<forall>n. \<not> db_fails env n" and "\<not> names_rule (compliance_rules d) r"
  shows "\<exists>d0. create_loop env now doc (r # rs) d = create_loop env now doc rs d0
           \<and> compliance_rules d0 = compliance_rules d \<and> action_items d0 = action_items d
           \<and> document_rule_results d0 = document_rule_results d \<and> documents d0 = documents d"
proof (cases "as_string (r ''status'') = Some ''fail'' \<and> as_string (r ''rule_name'') \<noteq> None")
  case False
  then show ?thesis
    by (auto split: option.splits)
next
  case True
  then obtain n where n: "as_string (r ''status'') = Some ''fail''"
      "as_string (r ''rule_name'') = Some n"
    by auto
  then have "n \<notin> cr_Name ` set (compliance_rules d)"
    using assms(2) by (auto simp: names_rule_def)
  then have "find (\<lambda>q. cr_Name q = n) (compliance_rules d) = None"
    by (simp add: find_rule_None)
  then have "create_loop env now doc (r # rs) d
               = create_loop env now doc rs (d\<lparr>statements := statements d + 1\<rparr>)"
    using n assms(1) by (simp add: db_First_def db_statement_def)
  then show ?thesis
    by (intro exI[of _ "d\<lparr>statements := statements d + 1\<rparr>"]) simp
qed

lemma create_loop_hit:
  assumes "\<forall>n. \<not> db_fails env n" and "names_rule (compliance_rules d) r"
      and "\<forall>rule \<in> set (compliance_rules d). cr_ID rule \<noteq> []"
  shows "\<exists>d3 a x. create_loop env now doc (r # rs) d = create_loop env now doc rs d3
           \<and> compliance_rules d3 = compliance_rules d \<and> documents d3 = documents d
           \<and> action_items d3 = action_items d @ [a]
           \<and> document_rule_results d3 = document_rule_results d @ [x]
           \<and> pending_for env now doc (compliance_rules d) a r
           \<and> fail_result_for doc (compliance_rules d) x r"
proof -
  obtain n where n: "as_string (r ''status'') = Some ''fail''"
      "as_string (r ''rule_name'') = Some n"
      "n \<in> cr_Name ` set (compliance_rules d)"
    using assms(2) by (auto simp: names_rule_def)
  then obtain rule where rule: "find (\<lambda>q. cr_Name q = n) (compliance_rules d) = Some rule"
    using find_rule_None[of n "compliance_rules d"] by auto
  then have r2: "rule \<in> set (compliance_rules d)" "cr_Name rule = n"
    using find_rule_Some by auto
  then have id: "cr_ID rule \<noteq> []" using assms(3) by auto
  let ?a = "\<lparr>ai_ID = gen_random_uuid env (statements d + 1), ai_DocumentID = doc_ID doc,
              ai_RuleID = cr_ID rule,
              ai_Description = ''Address '' @ n @ '' non-compliance: ''
                                 @ string_or_empty (r ''explanation''),
              ai_AssignedTo = [], ai_Status = ''pending'',
              ai_Priority = Title (ToLower (string_or_empty (r ''severity''))),
              ai_DueDate = AddDate env now 0 1 0, ai_CreatedAt = now, ai_UpdatedAt = now\<rparr>"
  let ?x = "\<lparr>drr_ID = gen_random_uuid env (statements d + 2), drr_DocumentID = doc_ID doc,
              drr_RuleID = cr_ID rule, drr_Status = ''fail'', drr_Details = Encoded (JObj r),
              drr_CreatedAt = now\<rparr>"
  let ?d3 = "d\<lparr>action_items := action_items d @ [?a],
                statements := statements d + 3,
                document_rule_results := document_rule_results d @ [?x]\<rparr>"
  have step: "create_loop env now doc (r # rs) d = create_loop env now doc rs ?d3"
    using n rule id assms(1)
    by (simp add: db_First_def db_statement_def Create_ActionItem_def
        Create_DocumentRuleResult_def db_write_def Let_def numeral_3_eq_3)
  have "pending_for env now doc (compliance_rules d) ?a r"
       "fail_result_for doc (compliance_rules d) ?x r"
    using n r2 by (auto simp: pending_for_def fail_result_for_def)
  then show ?thesis
    using step by (intro exI[of _ ?d3] exI[of _ ?a] exI[of _ ?x]) simp
qed

lemma create_loop_creates:
  assumes "\<forall>n. \<not> db_fails env n" and "\<forall>rule \<in> set (compliance_rules d). cr_ID rule \<noteq> []"
  shows "\<exists>d' created recorded. create_loop env now doc results d = (Returned (), d')
           \<and> compliance_rules d' = compliance_rules d \<and> documents d' = documents d
           \<and> action_items d' = action_items d @ created
           \<and> document_rule_results d' = document_rule_results d @ recorded
           \<and> list_all2 (pending_for env now doc (compliance_rules d)) created
                (filter (names_rule (compliance_rules d)) results)
           \<and> list_all2 (fail_result_for doc (compliance_rules d)) recorded
                (filter (names_rule (compliance_rules d)) results)"
  using assms(2)
proof (induction results arbitrary: d)
  case Nil
  then show ?case by simp
next
  case (Cons r rs)
  show ?case
  proof (cases "names_rule (compliance_rules d) r")
    case False
    obtain d0 where d0: "create_loop env now doc (r # rs) d = create_loop env now doc rs d0"
        "compliance_rules d0 = compliance_rules d" "action_items d0 = action_items d"
        "document_rule_results d0 = document_rule_results d" "documents d0 = documents d"
      using create_loop_skip[OF assms(1) False] by blast
    have "\<forall>rule \<in> set (compliance_rules d0). cr_ID rule \<noteq> []"
      using Cons.prems d0(2) by simp
    from Cons.IH[OF this] show ?thesis
      using False d0 by (simp del: create_loop.simps)
  next
    case True
    obtain d3 a x where d3: "create_loop env now doc (r # rs) d = create_loop env now doc rs d3"
        "compliance_rules d3 = compliance_rules d" "documents d3 = documents d"
        "action_items d3 = action_items d @ [a]"
        "document_rule_results d3 = document_rule_results d @ [x]"
        "pending_for env now doc (compliance_rules d) a r"
        "fail_result_for doc (compliance_rules d) x r"
      using create_loop_hit[OF assms(1) True Cons.prems] by blast
    have "\<forall>rule \<in> set (compliance_rules d3). cr_ID rule \<noteq> []"
      using Cons.prems d3(2) by simp
    from Cons.IH[OF this] obtain d' created recorded where
      ih: "create_loop env now doc rs d3 = (Returned (), d')"
        "compliance_rules d' = compliance_rules d3" "documents d' = documents d3"
        "action_items d' = action_items d3 @ created"
        "document_rule_results d' = document_rule_results d3 @ recorded"
        "list_all2 (pending_for env now doc (compliance_rules d3)) created
                (filter (names_rule (compliance_rules d3)) rs)"
        "list_all2 (fail_result_for doc (compliance_rules d3)) recorded
                (filter (names_rule (compliance_rules d3)) rs)"
      by blast
    have "create_loop env now doc (r # rs) d = (Returned (), d')
           \<and> compliance_rules d' = compliance_rules d \<and> documents d' = documents d
           \<and> action_items d' = action_items d @ (a # created)
           \<and> document_rule_results d' = document_rule_results d @ (x # recorded)
           \<and> list_all2 (pending_for env now doc (compliance_rules d)) (a # created)
                (filter (names_rule (compliance_rules d)) (r # rs))
           \<and> list_all2 (fail_result_for doc (compliance_rules d)) (x # recorded)
                (filter (names_rule (compliance_rules d)) (r # rs))"
      using True d3 ih by (simp del: create_loop.simps)
    then show ?thesis by blast
  qed
qed

lemma title_high: "Title (ToLower ''high'') = ''High''"
  by (simp add: Title_def ToLower_def lower_byte_def upper_byte_def isSeparator_def)

lemma example_doc_parses:
  "Unmarshal_results (doc_ParsedData example_doc) = Inr example_outcomes"
  by (simp add: Unmarshal_results_def example_doc_def example_outcomes_def)

lemma example_outcomes_failing:
  "filter (names_rule (compliance_rules catalog_store)) example_outcomes = [outcome_fail_nda]"
  by (simp add: names_rule_def nda_rule_def outcome_pass_nda_def outcome_fail_nda_def
      outcome_fail_other_def as_string_def catalog_store_def example_outcomes_def)

text \<open>
  C7. Take a document whose stored outcome list parses, a store whose statements succeed
  and a catalog in which every rule has an identifier. \<open>CreateActionItems\<close> then returns
  without error and adds, for each outcome with status \<open>fail\<close> whose rule name exists in
  the catalog, in the order of the outcomes, exactly one action item (pending, priority
  \<open>Title (ToLower severity)\<close> of the outcome's severity, due date the creation time plus one
  month, for this document and that rule) and exactly one rule result (status \<open>fail\<close>,
  the outcome as its details). Every other outcome, one whose rule is missing from the
  catalog among them, is passed over without an error; nothing else is changed.
\<close>

theorem CreateActionItems_creates:
  assumes "Unmarshal_results (doc_ParsedData doc) = Inr results"
      and "\<forall>n. \<not> db_fails env n"
      and "\<forall>rule \<in> set (compliance_rules d). cr_ID rule \<noteq> []"
  shows "\<exists>d' created recorded.
           CreateActionItems env now doc d = (Returned (), d')
         \<and> compliance_rules d' = compliance_rules d \<and> documents d' = documents d
         \<and> action_items d' = action_items d @ created
         \<and> document_rule_results d' = document_rule_results d @ recorded
         \<and> list_all2 (pending_for env now doc (compliance_rules d)) created
              (filter (names_rule (compliance_rules d)) results)
         \<and> list_all2 (fail_result_for doc (compliance_rules d)) recorded
              (filter (names_rule (compliance_rules d)) results)"
  using create_loop_creates[OF assms(2,3), of now doc results] assms(1)
  by (simp add: CreateActionItems_def)

theorem CreateActionItems_creates_witness:
  "Unmarshal_results (doc_ParsedData example_doc) = Inr example_outcomes
   \<and> (\<forall>n. \<not> db_fails offline_env n)
   \<and> list_all (\<lambda>rule. cr_ID rule \<noteq> []) (compliance_rules catalog_store)
   \<and> (\<exists>d' a x.
         CreateActionItems offline_env 5 example_doc catalog_store = (Returned (), d')
       \<and> action_items d' = [a] \<and> document_rule_results d' = [x]
       \<and> ai_Status a = ''pending'' \<and> ai_Priority a = ''High''
       \<and> ai_DueDate a = 5 + 30 * (24 * 60 * minute)
       \<and> ai_DocumentID a = ''doc-1'' \<and> ai_RuleID a = ''rule-1''
       \<and> drr_Status x = ''fail'' \<and> drr_Details x = Encoded (JObj outcome_fail_nda)
       \<and> drr_DocumentID x = ''doc-1'' \<and> drr_RuleID x = ''rule-1'')"
proof -
  have h: "\<forall>n. \<not> db_fails offline_env n"
    "\<forall>rule \<in> set (compliance_rules catalog_store). cr_ID rule \<noteq> []"
    by (simp_all add: offline_env_def example_env_def catalog_store_def nda_rule_def)
  from CreateActionItems_creates[OF example_doc_parses h, of 5]
  obtain d' created recorded where r:
    "CreateActionItems offline_env 5 example_doc catalog_store = (Returned (), d')"
    "action_items d' = action_items catalog_store @ created"
    "document_rule_results d' = document_rule_results catalog_store @ recorded"
    "list_all2 (pending_for offline_env 5 example_doc (compliance_rules catalog_store)) created
       (filter (names_rule (compliance_rules catalog_store)) example_outcomes)"
    "list_all2 (fail_result_for example_doc (compliance_rules catalog_store)) recorded
       (filter (names_rule (compliance_rules catalog_store)) example_outcomes)"
    by blast
  obtain a where a: "created = [a]"
    "pending_for offline_env 5 example_doc (compliance_rules catalog_store) a outcome_fail_nda"
    using r(4) unfolding example_outcomes_failing by (auto simp: list_all2_Cons2)
  obtain x where x: "recorded = [x]"
    "fail_result_for example_doc (compliance_rules catalog_store) x outcome_fail_nda"
    using r(5) unfolding example_outcomes_failing by (auto simp: list_all2_Cons2)
  have sev: "string_or_empty (outcome_fail_nda ''severity'') = ''high''"
    by (simp add: string_or_empty_def as_string_def outcome_fail_nda_def)
  have "ai_Status a = ''pending''" "ai_Priority a = ''High''"
       "ai_DueDate a = 5 + 30 * (24 * 60 * minute)" "ai_DocumentID a = ''doc-1''"
       "ai_RuleID a = ''rule-1''"
    using a(2)
    by (simp_all add: pending_for_def sev title_high offline_env_def example_env_def
        example_doc_def catalog_store_def nda_rule_def)
  moreover have "drr_Status x = ''fail''" "drr_Details x = Encoded (JObj outcome_fail_nda)"
        "drr_DocumentID x = ''doc-1''" "drr_RuleID x = ''rule-1''"
    using x(2) by (simp_all add: fail_result_for_def example_doc_def catalog_store_def nda_rule_def)
  moreover have "action_items d' = [a]" "document_rule_results d' = [x]"
    using r(2,3) a(1) x(1) by (simp_all add: catalog_store_def)
  ultimately show ?thesis
    using example_doc_parses h r(1) by (auto simp: list_all_iff)
qed

lemma payload_map_cases:
  "payload_map raw = (if raw = Encoded JNull then None else Some (stored_object raw))"
  by (cases raw rule: rawjson.exhaust;
      simp add: payload_map_def Unmarshal_map_def stored_object_def split: json.splits)

lemma First_items:
  "db_First env cond action_items d =
     (if db_fails env (statements d) then Inl StoreError
      else (case find cond (action_items d) of None \<Rightarrow> Inl RecordNotFound | Some r \<Rightarrow> Inr r),
      d\<lparr>statements := statements d + 1\<rparr>)"
  by (simp add: db_First_def db_statement_def split: option.splits)

lemma First_results:
  "db_First env cond document_rule_results d =
     (if db_fails env (statements d) then Inl StoreError
      else (case find cond (document_rule_results d) of None \<Rightarrow> Inl RecordNotFound | Some r \<Rightarrow> Inr r),
      d\<lparr>statements := statements d + 1\<rparr>)"
  by (simp add: db_First_def db_statement_def split: option.splits)


lemma db_write_eq:
  "db_write env change d =
     (if db_fails env (statements d) then (Some StoreError, d\<lparr>statements := statements d + 1\<rparr>)
      else (None, change (d\<lparr>statements := statements d + 1\<rparr>)))"
  by (simp add: db_write_def db_statement_def)

lemma UpdateActionItem_staged:
  "UpdateActionItem env now actionID d =
     (case db_First env (\<lambda>a. ai_ID a = actionID) action_items d of
        (Inl err, d1) \<Rightarrow> (Failed err, d1)
      | (Inr action, d1) \<Rightarrow>
          (case db_write env
                  (\<lambda>d. d\<lparr>action_items :=
                           map (\<lambda>a. if ai_ID a = ai_ID action
                                     then a\<lparr>ai_Status := ''completed'', ai_UpdatedAt := now\<rparr>
                                     else a)
                             (action_items d)\<rparr>) d1 of
             (Some err, d2) \<Rightarrow> (Failed err, d2)
           | (None, d2) \<Rightarrow> result_step env now action d2))"
  unfolding UpdateActionItem_def result_step_def document_step_def ..












lemmas store_eval =
  example_store_def example_action_def example_result_def example_doc_def offline_env_def
  example_env_def

text \<open>
  A stored payload that is the JSON value \<open>null\<close> leaves the map variable nil, and the
  write of the marker into it panics; the item has been completed by then.
\<close>

lemma UpdateActionItem_null_details_panics:
  "fst (UpdateActionItem offline_env 9 ''action-1'' store_with_null_details) = Panicked"
  "map ai_Status
     (action_items (snd (UpdateActionItem offline_env 9 ''action-1'' store_with_null_details)))
     = [''completed'']"
  by (simp_all add: UpdateActionItem_staged result_step_def First_items First_results db_write_eq
      payload_map_cases store_with_null_details_def store_eval)



end
